theory Spec2Isabelle
  imports Complex_Main
begin

section \<open>Sweep configuration (class BenchConfig)\<close>

text \<open>
  Python's \<open>s.split(',')\<close>: the pieces of \<open>s\<close> between commas, empty pieces kept, so
  the empty string splits into one empty piece.
\<close>

fun split_on :: "char \<Rightarrow> string \<Rightarrow> string list" where
  "split_on c [] = [[]]"
| "split_on c (x # xs) =
     (if x = c then [] # split_on c xs
      else (case split_on c xs of
              [] \<Rightarrow> [[x]]
            | y # ys \<Rightarrow> (x # y) # ys))"

record bench_config =
  kv_cache_types :: "(string \<times> string) list"
  batch_sizes :: string
  ubatch_sizes :: string
  depths :: string
  prompt_lengths :: string
  gen_lengths :: string
  output_dir :: string

text \<open>\<open>BenchConfig()\<close> with the defaults of the dataclass and of \<open>__post_init__\<close>.\<close>

definition default_config :: bench_config where
  "default_config =
     \<lparr> kv_cache_types = [(''q8_0'', ''q8_0'')],
       batch_sizes = ''8192'',
       ubatch_sizes = ''2048'',
       depths = ''0,512,1024,2048,4096,8192'',
       prompt_lengths = ''128,256,512,1024,2048,4096,8192'',
       gen_lengths = ''128,256,512,1024,2048,4096,8192'',
       output_dir = ''test-results'' \<rparr>"

text \<open>\<open>_count_opts\<close>: \<open>len(s.split(',')) if s else 0\<close>.\<close>

definition count_opts :: "string \<Rightarrow> int" where
  "count_opts s = (if s \<noteq> [] then int (length (split_on CHR '','' s)) else 0)"

definition count_combinations :: "bench_config \<Rightarrow> int" where
  "count_combinations cfg =
     (let b = count_opts (batch_sizes cfg);
          ub = count_opts (ubatch_sizes cfg);
          d = count_opts (depths cfg);
          p = count_opts (prompt_lengths cfg);
          n = count_opts (gen_lengths cfg);
          total = b * ub * d * p * n
      in if total > 0 then total else 1)"

text \<open>
  The cardinality of a field in the words of the specification: the number of
  comma-separated tokens, which is one more than the number of commas, and 0 for the empty
  string.
\<close>

definition spec_cardinality :: "string \<Rightarrow> int" where
  "spec_cardinality s = (if s = [] then 0 else 1 + int (count_list s CHR '',''))"

section \<open>JSON values and the Python operations applied to them\<close>

text \<open>
  What \<open>json.loads\<close> returns. A JSON object is a Python dict, kept here as an association
  list read with \<open>map_of\<close>. A JSON number without fraction or exponent is a Python int; any
  other number is a Python float, idealised as a real number: rounding, overflow, infinities
  and NaN of IEEE doubles are outside this model.
\<close>

datatype json =
    JNull
  | JBool bool
  | JInt int
  | JFloat real
  | JString string
  | JArray "json list"
  | JObject "(string \<times> json) list"

type_synonym pydict = "(string \<times> json) list"

text \<open>The Python exceptions the program can meet; all are subclasses of \<open>Exception\<close>.\<close>

datatype exn = TypeError | ValueError | EOFError | OSError string

text \<open>
  Library functions the program calls but does not define are parameters of the model:
  \<open>json.loads\<close> (\<open>None\<close> is \<open>JSONDecodeError\<close>) and the conversion \<open>float(s)\<close> of a
  string (\<open>None\<close> is \<open>ValueError\<close>).
\<close>

record py_runtime =
  loads :: "string \<Rightarrow> json option"
  float_of_str :: "string \<Rightarrow> real option"

text \<open>\<open>d.get(key, default)\<close> and \<open>key in d\<close>.\<close>

definition dict_get :: "pydict \<Rightarrow> string \<Rightarrow> json \<Rightarrow> json" where
  "dict_get d k dflt = (case map_of d k of None \<Rightarrow> dflt | Some v \<Rightarrow> v)"

definition dict_contains :: "pydict \<Rightarrow> string \<Rightarrow> bool" where
  "dict_contains d k = (map_of d k \<noteq> None)"

text \<open>The value of a Python number (\<open>bool\<close> is a subclass of \<open>int\<close>); \<open>None\<close> for the rest.\<close>

fun as_number :: "json \<Rightarrow> real option" where
  "as_number (JInt i) = Some (of_int i)"
| "as_number (JFloat x) = Some x"
| "as_number (JBool b) = Some (if b then 1 else 0)"
| "as_number _ = None"

text \<open>\<open>v == 0\<close>: never raises; a value that is not a number is not equal to 0.\<close>

definition py_eq_zero :: "json \<Rightarrow> bool" where
  "py_eq_zero v = (case as_number v of None \<Rightarrow> False | Some x \<Rightarrow> x = 0)"

text \<open>\<open>v > 0\<close>: \<open>TypeError\<close> when \<open>v\<close> is \<open>None\<close>, a string, a list or a dict.\<close>

definition py_gt_zero :: "json \<Rightarrow> exn + bool" where
  "py_gt_zero v = (case as_number v of None \<Rightarrow> Inl TypeError | Some x \<Rightarrow> Inr (x > 0))"

text \<open>\<open>float(v)\<close>: a string is parsed, \<open>None\<close>, a list or a dict raise \<open>TypeError\<close>.\<close>

definition py_float :: "py_runtime \<Rightarrow> json \<Rightarrow> exn + real" where
  "py_float rt v =
     (case v of
        JString s \<Rightarrow> (case float_of_str rt s of None \<Rightarrow> Inl ValueError | Some x \<Rightarrow> Inr x)
      | _ \<Rightarrow> (case as_number v of None \<Rightarrow> Inl TypeError | Some x \<Rightarrow> Inr x))"

text \<open>
  \<open>(n / (t/1000.0)) if t > 0 else 0.0\<close>: the test \<open>t > 0\<close> is evaluated first and raises
  for a \<open>t\<close> that is not a number; then the division raises for an \<open>n\<close> that is not a number.
\<close>

definition tokens_per_second :: "json \<Rightarrow> json \<Rightarrow> exn + real" where
  "tokens_per_second n t =
     (case py_gt_zero t of
        Inl e \<Rightarrow> Inl e
      | Inr False \<Rightarrow> Inr 0
      | Inr True \<Rightarrow>
          (case as_number n of
             None \<Rightarrow> Inl TypeError
           | Some x \<Rightarrow> Inr (x / (the (as_number t) / 1000))))"

section \<open>Progress visualization (class BenchmarkVisualizer)\<close>

definition calculate_speeds :: "py_runtime \<Rightarrow> pydict \<Rightarrow> json \<Rightarrow> json \<Rightarrow> exn + (real \<times> real)" where
  "calculate_speeds rt result_json n_prompt n_gen =
     (let avg_ts = dict_get result_json ''avg_ts'' (JInt 0)
      in if py_eq_zero n_gen then
           (case py_float rt avg_ts of Inl e \<Rightarrow> Inl e | Inr a \<Rightarrow> Inr (a, 0))
         else
           (case py_gt_zero avg_ts of
              Inl e \<Rightarrow> Inl e
            | Inr True \<Rightarrow> (case py_float rt avg_ts of Inl e \<Rightarrow> Inl e | Inr a \<Rightarrow> Inr (0, a))
            | Inr False \<Rightarrow>
                (let t_enc = dict_get result_json ''t_pp_ms'' (JInt 0);
                     t_gen = dict_get result_json ''t_tg_ms'' (JInt 0)
                 in case tokens_per_second n_prompt t_enc of
                      Inl e \<Rightarrow> Inl e
                    | Inr enc_s \<Rightarrow>
                        (case tokens_per_second n_gen t_gen of
                           Inl e \<Rightarrow> Inl e
                         | Inr gen_s \<Rightarrow> Inr (enc_s, gen_s)))))"

text \<open>
  The speeds of a record, as \<open>update_result\<close> computes them: the token counts are read from
  the record with default 0 and passed to \<open>_calculate_speeds\<close>.
\<close>

definition derive_speeds :: "py_runtime \<Rightarrow> pydict \<Rightarrow> exn + (real \<times> real)" where
  "derive_speeds rt result_json =
     calculate_speeds rt result_json
       (dict_get result_json ''n_prompt'' (JInt 0))
       (dict_get result_json ''n_gen'' (JInt 0))"

record entry =
  kv :: string
  batch :: json
  n_prompt :: json
  n_gen :: json
  n_depth :: json
  enc_speed :: real
  gen_speed :: real

text \<open>What is passed to \<open>log_error\<close>: a text, or \<open>f"Error: {str(e)}"\<close> for an exception.\<close>

datatype message = Text string | ErrorOf exn

record visualizer =
  total_runs_per_config :: int
  results_history :: "entry list"
  completed :: nat
  errors :: "message list"

definition new_visualizer :: "int \<Rightarrow> visualizer" where
  "new_visualizer total_runs =
     \<lparr> total_runs_per_config = total_runs, results_history = [], completed = 0, errors = [] \<rparr>"

definition log_error :: "message \<Rightarrow> visualizer \<Rightarrow> visualizer" where
  "log_error msg vis = vis\<lparr>errors := errors vis @ [msg]\<rparr>"

text \<open>
  \<open>update_result\<close>: an exception of \<open>_calculate_speeds\<close> leaves the visualizer as it was;
  otherwise the entry is appended and the progress bar advances by one.
\<close>

definition update_result :: "py_runtime \<Rightarrow> pydict \<Rightarrow> string \<Rightarrow> visualizer \<Rightarrow> exn + visualizer" where
  "update_result rt result_json kv_str vis =
     (let np = dict_get result_json ''n_prompt'' (JInt 0);
          ng = dict_get result_json ''n_gen'' (JInt 0);
          nd = dict_get result_json ''n_depth'' (JInt 0)
      in case calculate_speeds rt result_json np ng of
           Inl e \<Rightarrow> Inl e
         | Inr (es, gs) \<Rightarrow>
             Inr (vis\<lparr> results_history := results_history vis @
                        [\<lparr> kv = kv_str,
                           batch = dict_get result_json ''n_batch'' (JString ''?''),
                           n_prompt = np, n_gen = ng, n_depth = nd,
                           enc_speed = es, gen_speed = gs \<rparr>],
                      completed := Suc (completed vis) \<rparr>))"

text \<open>The speed cell of a table row, before the number is formatted.\<close>

datatype speed_cell = PP real | TG real | Dash

definition speed_of :: "entry \<Rightarrow> speed_cell" where
  "speed_of res =
     (if enc_speed res > 0 then PP (enc_speed res)
      else if gen_speed res > 0 then TG (gen_speed res)
      else Dash)"

text \<open>The slice \<open>xs[-10:]\<close>: the whole list when it has at most 10 elements.\<close>

definition last10 :: "'a list \<Rightarrow> 'a list" where
  "last10 xs = drop (length xs - 10) xs"

text \<open>
  \<open>generate_display\<close>: one table row for each of the last 10 entries, in the order of the
  history. A row is kept as the entry with its speed cell; the layout is the table
  library's.
\<close>

definition generate_display :: "visualizer \<Rightarrow> (entry \<times> speed_cell) list" where
  "generate_display vis = map (\<lambda>res. (res, speed_of res)) (last10 (results_history vis))"

section \<open>Benchmark runner (class LlamaBenchRunner)\<close>

text \<open>
  \<open>str.strip()\<close>. Strings are lists of 8-bit characters; the whitespace of Python below
  code point 128 is stripped, and the whitespace beyond ASCII is not modelled.
\<close>

definition is_space :: "char \<Rightarrow> bool" where
  "is_space c = (c \<in> {CHR 0x09, CHR 0x0A, CHR 0x0B, CHR 0x0C, CHR 0x0D,
                        CHR 0x1C, CHR 0x1D, CHR 0x1E, CHR 0x1F, CHR 0x20})"

definition strip :: "string \<Rightarrow> string" where
  "strip s = rev (dropWhile is_space (rev (dropWhile is_space s)))"

text \<open>
  \<open>_parse_line\<close>: \<open>None\<close> for an empty stripped line, for a \<open>JSONDecodeError\<close>, for a
  decoded value that is not a dict and for a dict without the key \<open>n_prompt\<close>; otherwise
  the decoded dict itself.
\<close>

definition parse_line :: "py_runtime \<Rightarrow> string \<Rightarrow> pydict option" where
  "parse_line rt line =
     (let l = strip line
      in if l = [] then None
         else (case loads rt l of
                 None \<Rightarrow> None
               | Some data \<Rightarrow>
                   (case data of
                      JObject d \<Rightarrow> if dict_contains d ''n_prompt'' then Some d else None
                    | _ \<Rightarrow> None)))"

text \<open>\<open>str(n)\<close> of a Python int, in decimal.\<close>

fun str_nat :: "nat \<Rightarrow> string" where
  "str_nat n =
     (if n < 10 then [char_of (48 + n)]
      else str_nat (n div 10) @ [char_of (48 + n mod 10)])"

declare str_nat.simps [simp del]

definition str_int :: "int \<Rightarrow> string" where
  "str_int i = (if i < 0 then ''-'' @ str_nat (nat (- i)) else str_nat (nat i))"

text \<open>A path \<open>Path(dir) / name\<close>.\<close>

datatype path = Path (dir: string) (name: string)

text \<open>
  The text written by \<open>json.dump(value, f, indent=n)\<close> is kept as \<open>Json_dump n value\<close>;
  any other content of a file is \<open>Raw\<close>.
\<close>

datatype file_content = Raw string | Json_dump nat json

text \<open>How the child process started by \<open>Popen\<close> behaves, as the program sees it.\<close>

datatype proc_end =
    Exits int string
  | ReadRaises exn
  | ReadInterrupted

datatype proc_outcome =
    LaunchFails exn
  | Runs "string list" proc_end

datatype input_result = InputLine string | InputInterrupt | InputEOF

text \<open>
  The environment of one program run. \<open>proc_at w i\<close> is the behaviour of the \<open>i\<close>-th child
  process: \<open>LaunchFails e\<close> when \<open>Popen\<close> raises \<open>e\<close>; otherwise the lines that \<open>readline\<close>
  returns and then the end of the stream with the exit code and the text of standard error
  (\<open>Exits\<close>), an exception of \<open>readline\<close> (\<open>ReadRaises\<close>) or a \<open>KeyboardInterrupt\<close> while
  \<open>readline\<close> blocks (\<open>ReadInterrupted\<close>). \<open>date_at w i\<close> is
  \<open>datetime.now().strftime("%Y%m%d")\<close> at the \<open>i\<close>-th run, \<open>can_write w p\<close> tells whether
  \<open>open(p, 'w')\<close> succeeds, and \<open>path_str\<close> is \<open>str(Path(s))\<close>.
\<close>

record world =
  runtime :: py_runtime
  proc_at :: "nat \<Rightarrow> proc_outcome"
  date_at :: "nat \<Rightarrow> string"
  can_write :: "path \<Rightarrow> bool"
  path_str :: "string \<Rightarrow> string"
  argv :: "string list"
  path_exists :: "string \<Rightarrow> bool"
  mkdir_error :: "exn option"
  input_result :: input_result

text \<open>What the program prints, in order.\<close>

datatype event =
    Stdout string
  | Console string
  | Failed_to_save path
  | Summary

text \<open>
  The mutable state: \<open>self.process\<close> (a child is named by its index), the commands passed
  to \<open>Popen\<close>, the children on which \<open>terminate()\<close> was called, the files, the paths
  opened for writing and the output.
\<close>

record state =
  process :: "nat option"
  launches :: "string list list"
  terminated :: "nat list"
  files :: "path \<Rightarrow> file_content option"
  opened :: "path list"
  printed :: "event list"

definition initial_state :: "(path \<Rightarrow> file_content option) \<Rightarrow> state" where
  "initial_state fs =
     \<lparr> process = None, launches = [], terminated = [], files = fs, opened = [], printed = [] \<rparr>"

definition build_command :: "string \<Rightarrow> bench_config \<Rightarrow> string \<Rightarrow> string \<Rightarrow> string list" where
  "build_command model_path cfg cache_type_k cache_type_v =
     [''llama-bench'',
      ''-fa'', ''1'',
      ''-r'', ''3'',
      ''-m'', model_path,
      ''-ctk'', cache_type_k,
      ''-ctv'', cache_type_v,
      ''-b'', batch_sizes cfg,
      ''-ub'', ubatch_sizes cfg,
      ''-d'', depths cfg,
      ''-p'', prompt_lengths cfg,
      ''-n'', gen_lengths cfg,
      ''-o'', ''jsonl'']"

definition get_output_filename :: "bench_config \<Rightarrow> string \<Rightarrow> string \<Rightarrow> string \<Rightarrow> path" where
  "get_output_filename cfg date_str cache_type_k cache_type_v =
     Path (output_dir cfg)
          (''raw-data-'' @ cache_type_k @ ''-'' @ cache_type_v @ ''-'' @ date_str @ ''.json'')"

text \<open>
  \<open>_save_results\<close>: nothing at all for an empty list; otherwise the file is opened for
  writing and receives the list with indent 2, or the \<open>IOError\<close> of \<open>open\<close> is printed.
\<close>

definition save_results :: "world \<Rightarrow> pydict list \<Rightarrow> path \<Rightarrow> state \<Rightarrow> state" where
  "save_results w results output_file s =
     (if results = [] then s
      else if can_write w output_file then
        s\<lparr> files := (files s)(output_file \<mapsto> Json_dump 2 (JArray (map JObject results))),
           opened := opened s @ [output_file] \<rparr>
      else
        s\<lparr> opened := opened s @ [output_file],
           printed := printed s @ [Failed_to_save output_file] \<rparr>)"

definition check_process_result ::
  "state \<Rightarrow> int \<Rightarrow> pydict list \<Rightarrow> string \<Rightarrow> string \<Rightarrow> visualizer \<Rightarrow> visualizer" where
  "check_process_result s rc results kv_str err_out vis =
     (if rc \<noteq> 0 then
        (let err_msg = ''Process failed (rc='' @ str_int rc @ '')'';
             err_msg2 = (if process s \<noteq> None \<and> err_out \<noteq> []
                         then err_msg @ [CHR 0x0A] @ ''Stderr: '' @ err_out
                         else err_msg)
         in log_error (Text err_msg2) vis)
      else if results = [] then log_error (Text (''No results for '' @ kv_str)) vis
      else vis)"

text \<open>
  The loop over the lines of standard output in \<open>_run_single_config\<close>: a parsed record is
  appended to the collected list before the visualizer is updated, and an exception of
  the update ends the loop.
\<close>

fun read_loop ::
  "py_runtime \<Rightarrow> string \<Rightarrow> string list \<Rightarrow> pydict list \<Rightarrow> visualizer
     \<Rightarrow> pydict list \<times> visualizer \<times> exn option" where
  "read_loop rt kv_str [] collected vis = (collected, vis, None)"
| "read_loop rt kv_str (line # rest) collected vis =
     (case parse_line rt line of
        None \<Rightarrow> read_loop rt kv_str rest collected vis
      | Some result \<Rightarrow>
          (case update_result rt result kv_str vis of
             Inl e \<Rightarrow> (collected @ [result], vis, Some e)
           | Inr vis2 \<Rightarrow> read_loop rt kv_str rest (collected @ [result]) vis2))"

text \<open>
  \<open>_run_single_config\<close>. The result tells, third, whether a \<open>KeyboardInterrupt\<close> leaves the
  function: \<open>except Exception\<close> does not catch it, and the \<open>finally\<close> clause runs in
  every case, saving the collected records and resetting \<open>self.process\<close>.
\<close>

definition run_single_config ::
  "world \<Rightarrow> string \<Rightarrow> bench_config \<Rightarrow> string \<Rightarrow> string \<Rightarrow> state \<Rightarrow> visualizer
     \<Rightarrow> state \<times> visualizer \<times> bool" where
  "run_single_config w model_path cfg k v s vis =
     (let kv_str = k @ ''/'' @ v;
          cmd = build_command model_path cfg k v;
          i = length (launches s);
          output_file = get_output_filename cfg (date_at w i) k v;
          s1 = s\<lparr>launches := launches s @ [cmd]\<rparr>
      in case proc_at w i of
           LaunchFails e \<Rightarrow>
             ((save_results w [] output_file s1)\<lparr>process := None\<rparr>,
              log_error (ErrorOf e) vis, False)
         | Runs lines fin \<Rightarrow>
             (let s2 = s1\<lparr>process := Some i\<rparr>
              in case read_loop (runtime w) kv_str lines [] vis of
                   (collected, vis1, Some e) \<Rightarrow>
                     ((save_results w collected output_file s2)\<lparr>process := None\<rparr>,
                      log_error (ErrorOf e) vis1, False)
                 | (collected, vis1, None) \<Rightarrow>
                     (case fin of
                        Exits rc err_out \<Rightarrow>
                          ((save_results w collected output_file s2)\<lparr>process := None\<rparr>,
                           check_process_result s2 rc collected kv_str err_out vis1, False)
                      | ReadRaises e \<Rightarrow>
                          ((save_results w collected output_file s2)\<lparr>process := None\<rparr>,
                           log_error (ErrorOf e) vis1, False)
                      | ReadInterrupted \<Rightarrow>
                          ((save_results w collected output_file s2)\<lparr>process := None\<rparr>,
                           vis1, True))))"

text \<open>The loop of \<open>run_all\<close> over the cache-type pairs; a \<open>KeyboardInterrupt\<close> leaves it.\<close>

fun run_configs ::
  "world \<Rightarrow> string \<Rightarrow> bench_config \<Rightarrow> (string \<times> string) list \<Rightarrow> state \<Rightarrow> visualizer
     \<Rightarrow> state \<times> visualizer \<times> bool" where
  "run_configs w model_path cfg [] s vis = (s, vis, False)"
| "run_configs w model_path cfg ((k, v) # rest) s vis =
     (case run_single_config w model_path cfg k v s vis of
        (s2, vis2, True) \<Rightarrow> (s2, vis2, True)
      | (s2, vis2, False) \<Rightarrow> run_configs w model_path cfg rest s2 vis2)"

text \<open>\<open>_handle_interrupt\<close>, followed by \<open>sys.exit(130)\<close>.\<close>

definition handle_interrupt :: "state \<Rightarrow> state" where
  "handle_interrupt s =
     s\<lparr> terminated := (case process s of None \<Rightarrow> terminated s | Some p \<Rightarrow> terminated s @ [p]),
        printed := printed s @ [Console (CHR 0x0A # ''[yellow]Interrupted.[/yellow]'')] \<rparr>"

definition print_summary :: "state \<Rightarrow> state" where
  "print_summary s = s\<lparr>printed := printed s @ [Summary]\<rparr>"

text \<open>\<open>run_all\<close>: the third component is the status of \<open>sys.exit\<close>, if it was called.\<close>

definition run_all ::
  "world \<Rightarrow> string \<Rightarrow> bench_config \<Rightarrow> state \<Rightarrow> state \<times> visualizer \<times> int option" where
  "run_all w model_path cfg s =
     (let per_config_runs = count_combinations cfg;
          total_runs = per_config_runs * int (length (kv_cache_types cfg));
          visualizer = new_visualizer total_runs
      in case run_configs w model_path cfg (kv_cache_types cfg) s visualizer of
           (s2, vis2, True) \<Rightarrow> (handle_interrupt s2, vis2, Some 130)
         | (s2, vis2, False) \<Rightarrow> (print_summary s2, vis2, None))"

text \<open>
  How the program ends: \<open>sys.exit(n)\<close>, an exception that nothing catches, or the return
  of \<open>main\<close>; and the exit status of the process in each case.
\<close>

datatype ending = Exit int | Uncaught exn | Returned

fun exit_status :: "ending \<Rightarrow> int" where
  "exit_status (Exit n) = n"
| "exit_status (Uncaught e) = 1"
| "exit_status Returned = 0"

definition main :: "world \<Rightarrow> (path \<Rightarrow> file_content option) \<Rightarrow> ending \<times> state" where
  "main w fs =
     (let s0 = initial_state fs
      in if length (argv w) < 2 then
           (Exit 1, s0\<lparr>printed := [Stdout ''Usage: python llama-bench-runner.py <model_path>'']\<rparr>)
         else if \<not> path_exists w (argv w ! 1) then
           (Exit 1,
            s0\<lparr>printed := [Console (''[red]Error: Model file not found: ''
                                     @ path_str w (argv w ! 1) @ ''[/red]'')]\<rparr>)
         else
           (case mkdir_error w of
              Some e \<Rightarrow> (Uncaught e, s0)
            | None \<Rightarrow>
                (let total_tests = int (length (kv_cache_types default_config))
                                   * count_combinations default_config;
                     s1 = s0\<lparr>printed :=
                            [Stdout (''Plan to run approximately '' @ str_int total_tests @ '' tests.''),
                             Stdout ''Press Enter to start...'']\<rparr>
                 in case input_result w of
                      InputInterrupt \<Rightarrow> (Exit 0, s1)
                    | InputEOF \<Rightarrow> (Uncaught EOFError, s1)
                    | InputLine l \<Rightarrow>
                        (case run_all w (path_str w (argv w ! 1)) default_config s1 of
                           (s2, vis, Some n) \<Rightarrow> (Exit n, s2)
                         | (s2, vis, None) \<Rightarrow> (Returned, s2)))))"

section \<open>Predicates and example inputs of the theorems\<close>





text \<open>
  The values of \<open>json.loads\<close> on the lines of the examples. The theorems hold for every
  \<open>loads\<close>; this one only instantiates them, and what it returns on other texts matters
  to none of them.
\<close>

definition example_line :: string where
  "example_line = ''{\"n_prompt\": 128, \"n_gen\": 0, \"avg_ts\": 55.2}''"

definition example_loads :: "string \<Rightarrow> json option" where
  "example_loads s =
     (if s = example_line then
        Some (JObject [(''n_prompt'', JInt 128), (''n_gen'', JInt 0), (''avg_ts'', JFloat 55.2)])
      else if s = ''{\"n_prompt\": \"many\"}'' then
        Some (JObject [(''n_prompt'', JString ''many'')])
      else if s = ''{\"n_gen\": 64}'' then Some (JObject [(''n_gen'', JInt 64)])
      else if s = ''[1, 2]'' then Some (JArray [JInt 1, JInt 2])
      else None)"

definition example_runtime :: py_runtime where
  "example_runtime = \<lparr> loads = example_loads, float_of_str = Map.empty \<rparr>"


text \<open>\<open>isinstance(v, dict)\<close>.\<close>

definition is_object :: "json \<Rightarrow> bool" where
  "is_object v = (case v of JObject d \<Rightarrow> True | _ \<Rightarrow> False)"

text \<open>
  \<open>update_result\<close> called for each record of a list in turn, as the loop over the lines
  of a run does for the records it parses; an exception ends the sequence.
\<close>

fun update_results :: "py_runtime \<Rightarrow> pydict list \<Rightarrow> string \<Rightarrow> visualizer \<Rightarrow> exn + visualizer" where
  "update_results rt [] kv_str vis = Inr vis"
| "update_results rt (r # rs) kv_str vis =
     (case update_result rt r kv_str vis of
        Inl e \<Rightarrow> Inl e
      | Inr vis2 \<Rightarrow> update_results rt rs kv_str vis2)"

text \<open>Fifteen records, numbered by their prompt token count, for the examples.\<close>

definition first_fifteen :: "int list" where
  "first_fifteen = [1, 2, 3, 4, 5, 6, 7, 8, 9, 10, 11, 12, 13, 14, 15]"

definition sample_record :: "int \<Rightarrow> pydict" where
  "sample_record i = [(''n_prompt'', JInt i), (''n_gen'', JInt 0), (''avg_ts'', JInt 1)]"

text \<open>
  The records that the \<open>i\<close>-th run has collected when its \<open>finally\<close> clause runs: none
  when \<open>Popen\<close> raised, otherwise those of the loop over the lines.
\<close>

definition collected_of :: "world \<Rightarrow> string \<Rightarrow> string \<Rightarrow> nat \<Rightarrow> visualizer \<Rightarrow> pydict list" where
  "collected_of w k v i vis =
     (case proc_at w i of
        LaunchFails e \<Rightarrow> []
      | Runs lines fin \<Rightarrow> fst (read_loop (runtime w) (k @ ''/'' @ v) lines [] vis))"

text \<open>
  The environment of the examples: every child process behaves as \<open>p\<close>, the date is
  2024-01-01, every file can be written, the model file exists and the user presses Enter.
\<close>

definition example_world :: "proc_outcome \<Rightarrow> world" where
  "example_world p =
     \<lparr> runtime = example_runtime,
       proc_at = (\<lambda>i. p),
       date_at = (\<lambda>i. ''20240101''),
       can_write = (\<lambda>f. True),
       path_str = (\<lambda>s. s),
       argv = [''llama-bench-runner.py'', ''model.gguf''],
       path_exists = (\<lambda>s. True),
       mkdir_error = None,
       input_result = InputLine [] \<rparr>"


definition example_record :: pydict where
  "example_record = [(''n_prompt'', JInt 128), (''n_gen'', JInt 0), (''avg_ts'', JFloat 55.2)]"


section \<open>The size of the sweep\<close>

lemma length_split_on: "length (split_on c s) = Suc (count_list s c)"
  by (induction s) (auto split: list.splits)

lemma count_opts_cardinality: "count_opts s = spec_cardinality s"
  by (simp add: count_opts_def spec_cardinality_def length_split_on)

lemma spec_cardinality_nonneg: "0 \<le> spec_cardinality s"
  by (simp add: spec_cardinality_def)

lemma count_combinations_eq:
  "count_combinations cfg =
     (let t = spec_cardinality (batch_sizes cfg) * spec_cardinality (ubatch_sizes cfg)
              * spec_cardinality (depths cfg) * spec_cardinality (prompt_lengths cfg)
              * spec_cardinality (gen_lengths cfg)
      in if t = 0 then 1 else t)"
proof -
  let ?t = "spec_cardinality (batch_sizes cfg) * spec_cardinality (ubatch_sizes cfg)
              * spec_cardinality (depths cfg) * spec_cardinality (prompt_lengths cfg)
              * spec_cardinality (gen_lengths cfg)"
  have "0 \<le> ?t"
    by (intro mult_nonneg_nonneg spec_cardinality_nonneg)
  then have "(?t > 0) = (?t \<noteq> 0)" by linarith
  then show ?thesis
    unfolding count_combinations_def count_opts_cardinality Let_def by auto
qed

lemma example_12: "count_combinations
       \<lparr> kv_cache_types = kvs, batch_sizes = ''8192'', ubatch_sizes = ''2048'',
         depths = ''0,512'', prompt_lengths = ''128,256,512'', gen_lengths = ''128,256'',
         output_dir = out \<rparr> = 12"
  by (simp add: count_combinations_def count_opts_def)

text \<open>
  C3: for every configuration, \<open>count_combinations\<close> is the product of the cardinalities of
  the five comma-separated fields, where the cardinality of a field is its number of
  comma-separated tokens and 0 for the empty string, and it is 1 when that product is 0.
  The fields \<open>8192\<close>, \<open>2048\<close>, \<open>0,512\<close>, \<open>128,256,512\<close> and \<open>128,256\<close> give 12.
\<close>

theorem count_combinations_product:
  "count_combinations cfg =
     (let t = spec_cardinality (batch_sizes cfg) * spec_cardinality (ubatch_sizes cfg)
              * spec_cardinality (depths cfg) * spec_cardinality (prompt_lengths cfg)
              * spec_cardinality (gen_lengths cfg)
      in if t = 0 then 1 else t)
   \<and> count_combinations
       \<lparr> kv_cache_types = kvs, batch_sizes = ''8192'', ubatch_sizes = ''2048'',
         depths = ''0,512'', prompt_lengths = ''128,256,512'', gen_lengths = ''128,256'',
         output_dir = out \<rparr> = 12"
  using count_combinations_eq example_12 by blast

theorem count_combinations_product_witness:
  "count_combinations default_config = 294"
  using count_combinations_product [of default_config]
  by (simp add: default_config_def spec_cardinality_def)

section \<open>The speeds of a record\<close>













section \<open>The parser of result lines\<close>

lemma dict_contains_keys: "dict_contains d k = (k \<in> fst ` set d)"
  by (simp add: dict_contains_def map_of_eq_None_iff)


lemma parse_line_None:
  "strip line = [] \<Longrightarrow> parse_line rt line = None"
  "loads rt (strip line) = None \<Longrightarrow> parse_line rt line = None"
  "loads rt (strip line) = Some v \<Longrightarrow> \<not> is_object v \<Longrightarrow> parse_line rt line = None"
  "loads rt (strip line) = Some (JObject d) \<Longrightarrow> ''n_prompt'' \<notin> fst ` set d \<Longrightarrow> parse_line rt line = None"
  by (auto simp: parse_line_def Let_def is_object_def dict_contains_keys split: json.splits)

lemma parse_line_Some_iff:
  "(parse_line rt line = Some d) =
     (strip line \<noteq> [] \<and> loads rt (strip line) = Some (JObject d) \<and> ''n_prompt'' \<in> fst ` set d)"
  by (auto simp: parse_line_def dict_contains_keys Let_def split: json.splits option.splits)



text \<open>
  C10: a line that \<open>parse_line\<close> accepts yields the decoded mapping itself, unchanged; and
  every decoded mapping with a key \<open>n_prompt\<close> is accepted, whatever the value of that key
  and whatever its other fields.
\<close>

theorem parse_line_identity:
  "(parse_line rt line = Some r \<longrightarrow> loads rt (strip line) = Some (JObject r))
   \<and> (strip line \<noteq> [] \<and> loads rt (strip line) = Some (JObject d) \<and> (''n_prompt'', v) \<in> set d
        \<longrightarrow> parse_line rt line = Some d)"
  by (force simp: parse_line_Some_iff)

theorem parse_line_identity_witness:
  "parse_line example_runtime ''{\"n_prompt\": \"many\"}'' = Some [(''n_prompt'', JString ''many'')]
   \<and> loads example_runtime (strip ''{\"n_prompt\": \"many\"}'') = Some (JObject [(''n_prompt'', JString ''many'')])"
proof -
  have s: "strip ''{\"n_prompt\": \"many\"}'' = ''{\"n_prompt\": \"many\"}''"
    by (simp add: strip_def is_space_def)
  have l: "loads example_runtime ''{\"n_prompt\": \"many\"}'' = Some (JObject [(''n_prompt'', JString ''many'')])"
    by (simp add: example_runtime_def example_loads_def example_line_def)
  show ?thesis
    using parse_line_identity [of example_runtime "''{\"n_prompt\": \"many\"}''"
        "[(''n_prompt'', JString ''many'')]" "[(''n_prompt'', JString ''many'')]" "JString ''many''"]
    by (simp add: s l)
qed

section \<open>The history of the progress display\<close>

lemma update_result_appends:
  assumes "update_result rt r kv_str vis = Inr vis2"
  shows "\<exists>e. results_history vis2 = results_history vis @ [e]
            \<and> kv e = kv_str
            \<and> batch e = dict_get r ''n_batch'' (JString ''?'')
            \<and> n_prompt e = dict_get r ''n_prompt'' (JInt 0)
            \<and> n_gen e = dict_get r ''n_gen'' (JInt 0)
            \<and> n_depth e = dict_get r ''n_depth'' (JInt 0)
            \<and> derive_speeds rt r = Inr (enc_speed e, gen_speed e)"
    and "completed vis2 = Suc (completed vis)"
    and "errors vis2 = errors vis"
    and "total_runs_per_config vis2 = total_runs_per_config vis"
  using assms
  by (auto simp: update_result_def derive_speeds_def Let_def split: sum.splits prod.splits)

lemma last10_length: "length (last10 xs) = min 10 (length xs)"
  by (simp add: last10_def)

lemma generate_display_last10:
  "map fst (generate_display vis) = drop (length (results_history vis) - 10) (results_history vis)"
  by (simp add: generate_display_def last10_def comp_def)

lemma update_results_history:
  assumes "update_results rt rs kv_str vis = Inr vis2"
  shows "\<exists>es. results_history vis2 = results_history vis @ es
           \<and> map n_prompt es = map (\<lambda>r. dict_get r ''n_prompt'' (JInt 0)) rs
           \<and> completed vis2 = completed vis + length rs"
  using assms
proof (induction rs arbitrary: vis)
  case Nil
  then show ?case by simp
next
  case (Cons r rs)
  from Cons.prems obtain v1 where v1: "update_result rt r kv_str vis = Inr v1"
    and rest: "update_results rt rs kv_str v1 = Inr vis2"
    by (auto split: sum.splits)
  from update_result_appends[OF v1] obtain e where
    e: "results_history v1 = results_history vis @ [e]"
       "n_prompt e = dict_get r ''n_prompt'' (JInt 0)" "completed v1 = Suc (completed vis)"
    by blast
  from Cons.IH[OF rest] obtain es where
    es: "results_history vis2 = results_history v1 @ es"
        "map n_prompt es = map (\<lambda>r. dict_get r ''n_prompt'' (JInt 0)) rs"
        "completed vis2 = completed v1 + length rs"
    by blast
  show ?case
    by (rule exI[of _ "e # es"]) (simp add: e es)
qed

lemma update_results_new:
  assumes "update_results rt rs kv_str (new_visualizer t) = Inr vis"
  shows "map n_prompt (results_history vis) = map (\<lambda>r. dict_get r ''n_prompt'' (JInt 0)) rs"
    and "length (results_history vis) = length rs"
    and "completed vis = length rs"
    and "map (n_prompt \<circ> fst) (generate_display vis) =
           map (\<lambda>r. dict_get r ''n_prompt'' (JInt 0)) (drop (length rs - 10) rs)"
proof -
  from update_results_history[OF assms] obtain es where
    es: "results_history vis = es" "map n_prompt es = map (\<lambda>r. dict_get r ''n_prompt'' (JInt 0)) rs"
      "completed vis = length rs"
    by (auto simp: new_visualizer_def)
  show 1: "map n_prompt (results_history vis) = map (\<lambda>r. dict_get r ''n_prompt'' (JInt 0)) rs"
    using es by simp
  show 2: "length (results_history vis) = length rs"
    using arg_cong[OF 1, of length] by simp
  show "completed vis = length rs" by (rule es)
  have "map (n_prompt \<circ> fst) (generate_display vis) = map n_prompt (map fst (generate_display vis))"
    by simp
  also have "\<dots> = drop (length rs - 10) (map n_prompt (results_history vis))"
    by (simp only: generate_display_last10 2 drop_map)
  also have "\<dots> = map (\<lambda>r. dict_get r ''n_prompt'' (JInt 0)) (drop (length rs - 10) rs)"
    by (simp only: 1 drop_map)
  finally show "map (n_prompt \<circ> fst) (generate_display vis) =
           map (\<lambda>r. dict_get r ''n_prompt'' (JInt 0)) (drop (length rs - 10) rs)" .
qed

lemma update_result_sample:
  "update_result rt (sample_record i) kv_str vis =
     Inr (vis\<lparr> results_history := results_history vis @
              [\<lparr> kv = kv_str, batch = JString ''?'', n_prompt = JInt i, n_gen = JInt 0,
                 n_depth = JInt 0, enc_speed = 1, gen_speed = 0 \<rparr>],
            completed := Suc (completed vis) \<rparr>)"
  by (simp add: update_result_def sample_record_def calculate_speeds_def dict_get_def
      py_eq_zero_def py_float_def Let_def)

lemma fifteen_recorded:
  "map_sum id (map n_prompt \<circ> results_history)
     (update_results rt (map sample_record first_fifteen) kv_str (new_visualizer t))
   = Inr (map JInt first_fifteen)"
  by (simp add: update_result_sample new_visualizer_def first_fifteen_def)

lemma fifteen_displayed:
  "map_sum id (map (n_prompt \<circ> fst) \<circ> generate_display)
     (update_results rt (map sample_record first_fifteen) kv_str (new_visualizer t))
   = Inr (map JInt (drop 5 first_fifteen))"
  by (simp add: update_result_sample new_visualizer_def generate_display_def last10_def
      first_fifteen_def)

text \<open>
  C6, as amended: the rows of the display are the at most 10 most recently recorded entries,
  in arrival order, while the history itself keeps every entry. Each \<open>update_result\<close> call
  that returns appends the new entry, evicts nothing and increments the completed count by
  one; after recording 15 entries the history holds all 15 in arrival order and the display
  shows the last 10 of them.
\<close>

theorem history_and_display:
  "(update_result rt r kv_str vis = Inr vis2 \<longrightarrow>
      (\<exists>e. results_history vis2 = results_history vis @ [e]
           \<and> kv e = kv_str
           \<and> n_prompt e = dict_get r ''n_prompt'' (JInt 0)
           \<and> derive_speeds rt r = Inr (enc_speed e, gen_speed e))
      \<and> completed vis2 = Suc (completed vis))
   \<and> map fst (generate_display vis) = drop (length (results_history vis) - 10) (results_history vis)
   \<and> length (generate_display vis) = min 10 (length (results_history vis))
   \<and> (update_results rt rs kv_str (new_visualizer t) = Inr vis3 \<longrightarrow>
        length (results_history vis3) = length rs
        \<and> completed vis3 = length rs
        \<and> map n_prompt (results_history vis3) = map (\<lambda>r. dict_get r ''n_prompt'' (JInt 0)) rs
        \<and> map (n_prompt \<circ> fst) (generate_display vis3) =
            map (\<lambda>r. dict_get r ''n_prompt'' (JInt 0)) (drop (length rs - 10) rs))
   \<and> map_sum id (map n_prompt \<circ> results_history)
        (update_results rt (map sample_record first_fifteen) kv_str (new_visualizer t))
      = Inr (map JInt first_fifteen)
   \<and> map_sum id (map (n_prompt \<circ> fst) \<circ> generate_display)
        (update_results rt (map sample_record first_fifteen) kv_str (new_visualizer t))
      = Inr (map JInt (drop 5 first_fifteen))"
proof (intro conjI impI)
  assume a: "update_result rt r kv_str vis = Inr vis2"
  from update_result_appends(1)[OF a]
  show "\<exists>e. results_history vis2 = results_history vis @ [e]
           \<and> kv e = kv_str
           \<and> n_prompt e = dict_get r ''n_prompt'' (JInt 0)
           \<and> derive_speeds rt r = Inr (enc_speed e, gen_speed e)"
    by blast
  show "completed vis2 = Suc (completed vis)"
    by (rule update_result_appends(2)[OF a])
next
  show "map fst (generate_display vis) = drop (length (results_history vis) - 10) (results_history vis)"
    by (rule generate_display_last10)
  show "length (generate_display vis) = min 10 (length (results_history vis))"
    by (simp add: generate_display_def last10_length)
next
  assume b: "update_results rt rs kv_str (new_visualizer t) = Inr vis3"
  show "length (results_history vis3) = length rs"
    by (rule update_results_new(2)[OF b])
  show "completed vis3 = length rs"
    by (rule update_results_new(3)[OF b])
  show "map n_prompt (results_history vis3) = map (\<lambda>r. dict_get r ''n_prompt'' (JInt 0)) rs"
    by (rule update_results_new(1)[OF b])
  show "map (n_prompt \<circ> fst) (generate_display vis3) =
            map (\<lambda>r. dict_get r ''n_prompt'' (JInt 0)) (drop (length rs - 10) rs)"
    by (rule update_results_new(4)[OF b])
next
  show "map_sum id (map n_prompt \<circ> results_history)
        (update_results rt (map sample_record first_fifteen) kv_str (new_visualizer t))
      = Inr (map JInt first_fifteen)"
    by (rule fifteen_recorded)
  show "map_sum id (map (n_prompt \<circ> fst) \<circ> generate_display)
        (update_results rt (map sample_record first_fifteen) kv_str (new_visualizer t))
      = Inr (map JInt (drop 5 first_fifteen))"
    by (rule fifteen_displayed)
qed

theorem history_and_display_witness:
  "update_result example_runtime (sample_record 7) ''q8_0/q8_0'' (new_visualizer 1) =
     Inr \<lparr> total_runs_per_config = 1,
           results_history = [\<lparr> kv = ''q8_0/q8_0'', batch = JString ''?'', n_prompt = JInt 7,
                                n_gen = JInt 0, n_depth = JInt 0, enc_speed = 1, gen_speed = 0 \<rparr>],
           completed = 1, errors = [] \<rparr>
   \<and> update_results example_runtime [sample_record 7] ''q8_0/q8_0'' (new_visualizer 1) =
     Inr \<lparr> total_runs_per_config = 1,
           results_history = [\<lparr> kv = ''q8_0/q8_0'', batch = JString ''?'', n_prompt = JInt 7,
                                n_gen = JInt 0, n_depth = JInt 0, enc_speed = 1, gen_speed = 0 \<rparr>],
           completed = 1, errors = [] \<rparr>
   \<and> derive_speeds example_runtime (sample_record 7) = Inr (1, 0)"
  using history_and_display
    [of example_runtime "sample_record 7" "''q8_0/q8_0''" "new_visualizer 1"
        "\<lparr> total_runs_per_config = 1,
           results_history = [\<lparr> kv = ''q8_0/q8_0'', batch = JString ''?'', n_prompt = JInt 7,
                                n_gen = JInt 0, n_depth = JInt 0, enc_speed = 1, gen_speed = 0 \<rparr>],
           completed = 1, errors = [] \<rparr>"
        "[sample_record 7]" 1
        "\<lparr> total_runs_per_config = 1,
           results_history = [\<lparr> kv = ''q8_0/q8_0'', batch = JString ''?'', n_prompt = JInt 7,
                                n_gen = JInt 0, n_depth = JInt 0, enc_speed = 1, gen_speed = 0 \<rparr>],
           completed = 1, errors = [] \<rparr>"]
  by (simp add: update_result_sample new_visualizer_def)

text \<open>
  C6 as stated fails: after 15 entries are recorded the history holds 15 entries, the oldest
  five among them, and not at most 10.
\<close>

theorem history_unbounded_counterexample:
  "map_sum id (map n_prompt \<circ> results_history)
     (update_results example_runtime (map sample_record first_fifteen)
        ''q8_0/q8_0'' (new_visualizer 15))
   = Inr (map JInt first_fifteen)
   \<and> \<not> length (map JInt first_fifteen) \<le> 10"
  using fifteen_recorded [of example_runtime "''q8_0/q8_0''" 15]
  by (simp add: first_fifteen_def)

section \<open>One run and its output file\<close>




lemma save_results_frame:
  "process (save_results w rs f s) = process s"
  "launches (save_results w rs f s) = launches s"
  "terminated (save_results w rs f s) = terminated s"
  by (simp_all add: save_results_def)

lemma save_results_fields:
  "files (save_results w rs f (s\<lparr>launches := l, process := p\<rparr>)) = files (save_results w rs f s)"
  "opened (save_results w rs f (s\<lparr>launches := l, process := p\<rparr>)) = opened (save_results w rs f s)"
  "printed (save_results w rs f (s\<lparr>launches := l, process := p\<rparr>)) = printed (save_results w rs f s)"
  "files (save_results w rs f (s\<lparr>launches := l\<rparr>)) = files (save_results w rs f s)"
  "opened (save_results w rs f (s\<lparr>launches := l\<rparr>)) = opened (save_results w rs f s)"
  "printed (save_results w rs f (s\<lparr>launches := l\<rparr>)) = printed (save_results w rs f s)"
  by (simp_all add: save_results_def)

lemma run_single_config_state:
  assumes "run_single_config w model_path cfg k v s vis = (s2, vis2, intr)"
  defines "i \<equiv> length (launches s)"
  defines "out \<equiv> get_output_filename cfg (date_at w i) k v"
  defines "col \<equiv> collected_of w k v i vis"
  shows "launches s2 = launches s @ [build_command model_path cfg k v]"
    and "process s2 = None"
    and "terminated s2 = terminated s"
    and "files s2 = files (save_results w col out s)"
    and "opened s2 = opened (save_results w col out s)"
    and "printed s2 = printed (save_results w col out s)"
proof -
  have "launches s2 = launches s @ [build_command model_path cfg k v] \<and> process s2 = None
    \<and> terminated s2 = terminated s \<and> files s2 = files (save_results w col out s)
    \<and> opened s2 = opened (save_results w col out s) \<and> printed s2 = printed (save_results w col out s)"
  proof (cases "proc_at w i")
    case (LaunchFails e)
    then show ?thesis
      using assms(1) unfolding i_def out_def col_def collected_of_def run_single_config_def Let_def
      by (auto simp: save_results_frame save_results_fields)
  next
    case (Runs lines fin)
    obtain c v1 raised where rl: "read_loop (runtime w) (k @ ''/'' @ v) lines [] vis = (c, v1, raised)"
      by (cases "read_loop (runtime w) (k @ ''/'' @ v) lines [] vis") auto
    show ?thesis
      using assms(1) Runs rl unfolding i_def out_def col_def collected_of_def run_single_config_def Let_def
      by (cases raised; cases fin) (auto simp: save_results_frame save_results_fields)
  qed
  then show "launches s2 = launches s @ [build_command model_path cfg k v]"
    and "process s2 = None"
    and "terminated s2 = terminated s"
    and "files s2 = files (save_results w col out s)"
    and "opened s2 = opened (save_results w col out s)"
    and "printed s2 = printed (save_results w col out s)"
    by simp_all
qed


lemma save_results_files:
  "files (save_results w rs f s) =
     (if rs \<noteq> [] \<and> can_write w f then (files s)(f \<mapsto> Json_dump 2 (JArray (map JObject rs)))
      else files s)"
  by (simp add: save_results_def)

lemma save_results_opened:
  "opened (save_results w rs f s) = (if rs = [] then opened s else opened s @ [f])"
  by (simp add: save_results_def)

lemma save_results_printed:
  "printed (save_results w rs f s) =
     (if rs \<noteq> [] \<and> \<not> can_write w f then printed s @ [Failed_to_save f] else printed s)"
  by (simp add: save_results_def)

lemma save_results_skips: "(save_results w rs f s = s) = (rs = [])"
proof
  assume "save_results w rs f s = s"
  then have "opened (save_results w rs f s) = opened s" by simp
  then show "rs = []" by (simp add: save_results_opened split: if_splits)
next
  assume "rs = []"
  then show "save_results w rs f s = s" by (simp add: save_results_def)
qed


lemma run_single_config_files:
  "files (fst (run_single_config w model_path cfg k v s vis)) =
     files (save_results w (collected_of w k v (length (launches s)) vis)
              (get_output_filename cfg (date_at w (length (launches s))) k v) s)"
  "opened (fst (run_single_config w model_path cfg k v s vis)) =
     opened (save_results w (collected_of w k v (length (launches s)) vis)
              (get_output_filename cfg (date_at w (length (launches s))) k v) s)"
  "printed (fst (run_single_config w model_path cfg k v s vis)) =
     printed (save_results w (collected_of w k v (length (launches s)) vis)
              (get_output_filename cfg (date_at w (length (launches s))) k v) s)"
  using run_single_config_state(4-6)
    [of w model_path cfg k v s vis "fst (run_single_config w model_path cfg k v s vis)"
        "fst (snd (run_single_config w model_path cfg k v s vis))"
        "snd (snd (run_single_config w model_path cfg k v s vis))"]
  by simp_all

lemma parse_example_lines:
  "parse_line example_runtime (example_line @ [CHR 0x0A]) = Some example_record"
  "parse_line example_runtime ''llama-bench: loading model'' = None"
proof -
  have "strip (example_line @ [CHR 0x0A]) = example_line"
    by (simp add: strip_def is_space_def example_line_def)
  moreover have "loads example_runtime example_line = Some (JObject example_record)"
    by (simp add: example_runtime_def example_loads_def example_record_def)
  moreover have "example_line \<noteq> []"
    by (simp add: example_line_def)
  ultimately show "parse_line example_runtime (example_line @ [CHR 0x0A]) = Some example_record"
    by (simp add: parse_line_Some_iff example_record_def)
  have "strip ''llama-bench: loading model'' = ''llama-bench: loading model''"
    by (simp add: strip_def is_space_def)
  moreover have "loads example_runtime ''llama-bench: loading model'' = None"
    by (simp add: example_runtime_def example_loads_def example_line_def)
  ultimately show "parse_line example_runtime ''llama-bench: loading model'' = None"
    by (simp add: parse_line_None(2))
qed

lemma update_example_record:
  "update_result example_runtime example_record kv_str vis =
     Inr (vis\<lparr> results_history := results_history vis @
              [\<lparr> kv = kv_str, batch = JString ''?'', n_prompt = JInt 128, n_gen = JInt 0,
                 n_depth = JInt 0, enc_speed = 55.2, gen_speed = 0 \<rparr>],
            completed := Suc (completed vis) \<rparr>)"
  by (simp add: update_result_def example_record_def calculate_speeds_def dict_get_def
      py_eq_zero_def py_float_def Let_def)

lemma example_world_simps:
  "runtime (example_world p) = example_runtime"
  "proc_at (example_world p) i = p"
  "date_at (example_world p) i = ''20240101''"
  "can_write (example_world p) f = True"
  "path_str (example_world p) t = t"
  "argv (example_world p) = [''llama-bench-runner.py'', ''model.gguf'']"
  "path_exists (example_world p) t = True"
  "mkdir_error (example_world p) = None"
  "input_result (example_world p) = InputLine []"
  by (simp_all add: example_world_def)

lemma example_collected:
  "collected_of (example_world (Runs [''llama-bench: loading model'', example_line @ [CHR 0x0A]] fin))
     k v i vis = [example_record]"
  "collected_of (example_world (Runs [] fin)) k v i vis = []"
  "collected_of (example_world (Runs [''llama-bench: loading model''] fin)) k v i vis = []"
  "collected_of (example_world (LaunchFails e)) k v i vis = []"
  by (simp_all add: collected_of_def example_world_simps parse_example_lines update_example_record)





text \<open>
  C5: for every cache-type pair whose run collects zero records, no output file is written:
  the files, the list of files opened for writing and the output are as before the run. The
  run opens a file exactly when the collected list is not empty, and \<open>save_results\<close> does
  nothing exactly when its list is empty.
\<close>

theorem empty_run_writes_nothing:
  "(let s2 = fst (run_single_config w model_path cfg k v s vis);
        collected = collected_of w k v (length (launches s)) vis
    in (collected = [] \<longrightarrow> files s2 = files s \<and> opened s2 = opened s \<and> printed s2 = printed s)
     \<and> ((opened s2 = opened s) = (collected = [])))
   \<and> ((save_results w rs f s = s) = (rs = []))"
  by (simp add: Let_def run_single_config_files save_results_files save_results_opened
      save_results_printed save_results_skips)

theorem empty_run_writes_nothing_witness:
  "collected_of (example_world (Runs [''llama-bench: loading model''] (Exits 0 [])))
      ''q8_0'' ''q8_0'' 0 (new_visualizer 294) = []
   \<and> files (fst (run_single_config
        (example_world (Runs [''llama-bench: loading model''] (Exits 0 [])))
        ''model.gguf'' default_config ''q8_0'' ''q8_0''
        (initial_state Map.empty) (new_visualizer 294))) = Map.empty
   \<and> opened (fst (run_single_config
        (example_world (Runs [''llama-bench: loading model''] (Exits 0 [])))
        ''model.gguf'' default_config ''q8_0'' ''q8_0''
        (initial_state Map.empty) (new_visualizer 294))) = []"
  using empty_run_writes_nothing
      [of "example_world (Runs [''llama-bench: loading model''] (Exits 0 []))"
          "''model.gguf''" default_config "''q8_0''" "''q8_0''"
          "initial_state Map.empty" "new_visualizer 294"]
  by (simp add: Let_def example_collected initial_state_def)

section \<open>Failed runs and the sweep\<close>




lemma run_single_config_launches:
  "launches (fst (run_single_config w model_path cfg k v s vis)) =
     launches s @ [build_command model_path cfg k v]"
  "process (fst (run_single_config w model_path cfg k v s vis)) = None"
  "terminated (fst (run_single_config w model_path cfg k v s vis)) = terminated s"
  using run_single_config_state(1-3)
    [of w model_path cfg k v s vis "fst (run_single_config w model_path cfg k v s vis)"
        "fst (snd (run_single_config w model_path cfg k v s vis))"
        "snd (snd (run_single_config w model_path cfg k v s vis))"]
  by simp_all


lemma run_configs_process:
  "(process s = None \<longrightarrow> process (fst (run_configs w model_path cfg pairs s vis)) = None)
   \<and> terminated (fst (run_configs w model_path cfg pairs s vis)) = terminated s"
proof (induction pairs arbitrary: s vis)
  case Nil
  then show ?case by simp
next
  case (Cons p pairs)
  obtain k v where p: "p = (k, v)" by (cases p)
  obtain s2 vis2 intr where r: "run_single_config w model_path cfg k v s vis = (s2, vis2, intr)"
    by (cases "run_single_config w model_path cfg k v s vis") auto
  have s2: "process s2 = None" "terminated s2 = terminated s"
    using run_single_config_launches(2,3)[of w model_path cfg k v s vis] r by simp_all
  show ?case
    using Cons.IH[of s2 vis2] s2 by (cases intr) (simp_all add: p r)
qed





section \<open>The command line and the interrupt\<close>

lemma run_all_terminated:
  assumes "process s = None"
  shows "terminated (fst (run_all w model_path cfg s)) = terminated s"
proof -
  let ?r = "run_configs w model_path cfg (kv_cache_types cfg) s
              (new_visualizer (count_combinations cfg * int (length (kv_cache_types cfg))))"
  obtain s2 vis2 intr where r: "?r = (s2, vis2, intr)"
    by (cases ?r) auto
  have "process s2 = None" "terminated s2 = terminated s"
    using run_configs_process[of s w model_path cfg "kv_cache_types cfg"
        "new_visualizer (count_combinations cfg * int (length (kv_cache_types cfg)))"] assms r
    by simp_all
  then show ?thesis
    by (cases intr) (simp_all add: run_all_def Let_def r handle_interrupt_def print_summary_def)
qed

lemma main_never_terminates: "terminated (snd (main w fs)) = []"
proof -
  let ?s1 = "(initial_state fs)\<lparr>printed :=
      [Stdout (''Plan to run approximately ''
               @ str_int (int (length (kv_cache_types default_config))
                          * count_combinations default_config) @ '' tests.''),
       Stdout ''Press Enter to start...'']\<rparr>"
  have "terminated (fst (run_all w (path_str w (argv w ! 1)) default_config ?s1)) = []"
    by (subst run_all_terminated) (simp_all add: initial_state_def)
  then show ?thesis
    by (auto simp: main_def Let_def initial_state_def
        split: option.splits input_result.splits prod.splits)
qed

lemma main_startup:
  "length (argv w) < 2 \<Longrightarrow>
     main w fs = (Exit 1, (initial_state fs)
       \<lparr>printed := [Stdout ''Usage: python llama-bench-runner.py <model_path>'']\<rparr>)"
  "2 \<le> length (argv w) \<Longrightarrow> \<not> path_exists w (argv w ! 1) \<Longrightarrow> fst (main w fs) = Exit 1"
  "2 \<le> length (argv w) \<Longrightarrow> path_exists w (argv w ! 1) \<Longrightarrow> mkdir_error w = None \<Longrightarrow>
     input_result w = InputInterrupt \<Longrightarrow>
     main w fs = (Exit 0, (initial_state fs)\<lparr>printed :=
       [Stdout (''Plan to run approximately ''
                @ str_int (int (length (kv_cache_types default_config))
                           * count_combinations default_config) @ '' tests.''),
        Stdout ''Press Enter to start...'']\<rparr>)"
  by (simp_all add: main_def Let_def)

text \<open>
  C9 fails at the interrupt during execution: with the model file present and Enter pressed,
  a \<open>KeyboardInterrupt\<close> while the program reads the output of its child ends the program
  with status 130, but \<open>terminate()\<close> is called on no child, because the \<open>finally\<close> clause
  of \<open>_run_single_config\<close> has reset \<open>self.process\<close> before \<open>_handle_interrupt\<close> tests it.
\<close>

theorem interrupt_leaves_child_running:
  "fst (main (example_world (Runs [example_line @ [CHR 0x0A]] ReadInterrupted)) Map.empty) = Exit 130
   \<and> launches (snd (main (example_world (Runs [example_line @ [CHR 0x0A]] ReadInterrupted)) Map.empty))
       = [build_command ''model.gguf'' default_config ''q8_0'' ''q8_0'']
   \<and> terminated (snd (main (example_world (Runs [example_line @ [CHR 0x0A]] ReadInterrupted)) Map.empty))
       = []"
proof -
  let ?w = "example_world (Runs [example_line @ [CHR 0x0A]] ReadInterrupted)"
  have k: "kv_cache_types default_config = [(''q8_0'', ''q8_0'')]"
    by (simp add: default_config_def)
  have r: "\<And>s vis. snd (snd (run_single_config ?w ''model.gguf'' default_config ''q8_0'' ''q8_0'' s vis))
             = True"
    by (simp add: run_single_config_def Let_def example_world_simps parse_example_lines
        update_example_record)
  have rc: "\<And>s vis. run_configs ?w ''model.gguf'' default_config [(''q8_0'', ''q8_0'')] s vis =
      (fst (run_single_config ?w ''model.gguf'' default_config ''q8_0'' ''q8_0'' s vis),
       fst (snd (run_single_config ?w ''model.gguf'' default_config ''q8_0'' ''q8_0'' s vis)), True)"
  proof -
    fix s vis
    obtain a b c where
      abc: "run_single_config ?w ''model.gguf'' default_config ''q8_0'' ''q8_0'' s vis = (a, b, c)"
      by (cases "run_single_config ?w ''model.gguf'' default_config ''q8_0'' ''q8_0'' s vis") auto
    with r[of s vis] have "c = True" by simp
    then show "run_configs ?w ''model.gguf'' default_config [(''q8_0'', ''q8_0'')] s vis =
      (fst (run_single_config ?w ''model.gguf'' default_config ''q8_0'' ''q8_0'' s vis),
       fst (snd (run_single_config ?w ''model.gguf'' default_config ''q8_0'' ''q8_0'' s vis)), True)"
      by (simp add: abc)
  qed
  have ra: "\<And>s. run_all ?w ''model.gguf'' default_config s =
      (handle_interrupt (fst (run_single_config ?w ''model.gguf'' default_config ''q8_0'' ''q8_0'' s
          (new_visualizer (count_combinations default_config * int (length [(''q8_0'', ''q8_0'')]))))),
       fst (snd (run_single_config ?w ''model.gguf'' default_config ''q8_0'' ''q8_0'' s
          (new_visualizer (count_combinations default_config * int (length [(''q8_0'', ''q8_0'')]))))),
       Some 130)"
    unfolding run_all_def Let_def k rc prod.case bool.case ..
  have m: "main ?w Map.empty =
      (Exit 130, handle_interrupt (fst (run_single_config ?w ''model.gguf'' default_config
          ''q8_0'' ''q8_0''
          ((initial_state Map.empty)\<lparr>printed :=
             [Stdout (''Plan to run approximately ''
                      @ str_int (int (length (kv_cache_types default_config))
                                 * count_combinations default_config) @ '' tests.''),
              Stdout ''Press Enter to start...'']\<rparr>)
          (new_visualizer (count_combinations default_config * int (length [(''q8_0'', ''q8_0'')]))))))"
    by (simp add: main_def Let_def example_world_simps ra)
  show ?thesis
    unfolding m fst_conv snd_conv
    by (simp add: handle_interrupt_def run_single_config_launches initial_state_def)
qed

end
